theory Spec2Isabelle
  imports Main "HOL-Library.Word" "HOL-Library.AList"
begin

section \<open>JavaScript values used by the Answer model\<close>

text \<open>
  A JavaScript string is a sequence of UTF-16 code units and \<open>length\<close> counts code units.
  String literals of the source are ASCII apart from the two typographic quotes of the
  "is taken" message, U+2018 and U+2019, each one code unit.
\<close>

type_synonym code_unit = "16 word"
type_synonym jsstring = "code_unit list"

definition js :: "string \<Rightarrow> jsstring" where
  "js s = map of_char s"

definition LEFT_QUOTE :: jsstring where
  "LEFT_QUOTE = [0x2018]"

definition RIGHT_QUOTE :: jsstring where
  "RIGHT_QUOTE = [0x2019]"

text \<open>
  The values a property can hold: the data model has string properties; a property that
  is missing reads as \<open>undefined\<close>, and \<open>null\<close> is the other value the source's comment
  on \<open>validateProp\<close> names.
\<close>

datatype jsval = Undefined | Null | Str jsstring

text \<open>\<open>!val\<close> is true for \<open>undefined\<close>, \<open>null\<close> and the empty string.\<close>

fun truthy :: "jsval \<Rightarrow> bool" where
  "truthy Undefined = False"
| "truthy Null = False"
| "truthy (Str s) = (s \<noteq> [])"

text \<open>The conversion that \<open>'text' + val\<close> applies to \<open>val\<close>.\<close>

fun to_string :: "jsval \<Rightarrow> jsstring" where
  "to_string Undefined = js ''undefined''"
| "to_string Null = js ''null''"
| "to_string (Str s) = s"

text \<open>
  An object is an association list from property names to values, in insertion order;
  \<open>obj[k]\<close> of a missing key is \<open>undefined\<close>, and \<open>obj[k] = v\<close> overwrites in place or
  appends.
\<close>

type_synonym obj = "(jsstring \<times> jsval) list"

definition get_prop :: "obj \<Rightarrow> jsstring \<Rightarrow> jsval" where
  "get_prop ob k = (case map_of ob k of None \<Rightarrow> Undefined | Some v \<Rightarrow> v)"

definition set_prop :: "obj \<Rightarrow> jsstring \<Rightarrow> jsval \<Rightarrow> obj" where
  "set_prop ob k v = AList.update k v ob"

section \<open>Errors\<close>

text \<open>
  \<open>ValidationError\<close> comes from the module \<open>./errors\<close>, \<open>Error\<close> and \<open>TypeError\<close> are
  JavaScript's own, and \<open>ClientError\<close>, \<open>DatabaseError\<close> and \<open>TransientError\<close> are the
  error classes of the neo4j driver, each carrying the store's code and message under
  \<open>err.neo4j\<close>.
\<close>

datatype jserror =
    ValidationError jsstring
  | Error jsstring
  | TypeError
  | ClientError jsstring jsstring
  | DatabaseError jsstring jsstring
  | TransientError jsstring jsstring

fun is_ValidationError :: "jserror \<Rightarrow> bool" where
  "is_ValidationError (ValidationError m) = True"
| "is_ValidationError e = False"

section \<open>Validation rules\<close>

text \<open>
  The only shape of pattern in the source is \<open>/^[...]+$/\<close>: one or more characters of a
  class given by ranges, anchored at both ends (without the \<open>m\<close> flag \<open>$\<close> matches at
  the end of the input only).
\<close>

datatype regex = AnchoredClassPlus "(code_unit \<times> code_unit) list"

definition in_class :: "(code_unit \<times> code_unit) list \<Rightarrow> code_unit \<Rightarrow> bool" where
  "in_class ranges c = list_ex (\<lambda>r. fst r \<le> c \<and> c \<le> snd r) ranges"

fun test :: "regex \<Rightarrow> jsstring \<Rightarrow> bool" where
  "test (AnchoredClassPlus ranges) s = (s \<noteq> [] \<and> list_all (in_class ranges) s)"

record validation_info =
  required :: bool
  minLength :: nat
  maxLength :: nat
  pattern :: "regex option"
  message :: jsstring

definition WORD_CLASS :: "(code_unit \<times> code_unit) list" where
  "WORD_CLASS =
     [(of_char CHR ''A'', of_char CHR ''Z''), (of_char CHR ''a'', of_char CHR ''z''),
      (of_char CHR ''0'', of_char CHR ''9''), (of_char CHR ''_'', of_char CHR ''_'')]"

definition ANSWERNAME :: jsstring where
  "ANSWERNAME = js ''answername''"

definition REQUIREMENTS :: jsstring where
  "REQUIREMENTS = js ''2-16 characters; letters, numbers, and underscores only.''"

definition VALIDATION_INFO :: "(jsstring \<times> validation_info) list" where
  "VALIDATION_INFO =
     [(ANSWERNAME,
       \<lparr>required = True, minLength = 2, maxLength = 16,
        pattern = Some (AnchoredClassPlus WORD_CLASS),
        message = REQUIREMENTS\<rparr>)]"

text \<open>
  \<open>validateProp\<close>: \<open>Inl\<close> is the exception thrown, \<open>Inr ()\<close> the normal return.
  \<open>VALIDATION_INFO[prop]\<close> of an unknown property is \<open>undefined\<close>, whose \<open>message\<close>
  cannot be read. Past the \<open>!val\<close> test the value is a non-empty string.
\<close>

definition validateProp :: "jsstring \<Rightarrow> jsval \<Rightarrow> bool \<Rightarrow> jserror + unit" where
  "validateProp prop val is_required =
     (case map_of VALIDATION_INFO prop of
        None \<Rightarrow> Inl TypeError
      | Some info \<Rightarrow>
          if \<not> truthy val then
            (if required info \<and> is_required
             then Inl (ValidationError (js ''Missing '' @ prop @ js '' (required).''))
             else Inr ())
          else
            (case val of
               Str s \<Rightarrow>
                 if minLength info \<noteq> 0 \<and> length s < minLength info then
                   Inl (ValidationError
                     (js ''Invalid '' @ prop @ js '' (too short). Requirements: '' @ message info))
                 else if maxLength info \<noteq> 0 \<and> length s > maxLength info then
                   Inl (ValidationError
                     (js ''Invalid '' @ prop @ js '' (too long). Requirements: '' @ message info))
                 else
                   (case pattern info of
                      None \<Rightarrow> Inr ()
                    | Some p \<Rightarrow>
                        if \<not> test p s then
                          Inl (ValidationError
                            (js ''Invalid '' @ prop @ js '' (format). Requirements: '' @ message info))
                        else Inr ())
             | _ \<Rightarrow> Inl TypeError))"

text \<open>
  \<open>validate\<close>: the loop over the keys of \<open>VALIDATION_INFO\<close>, with \<open>safeProps\<close> as the
  accumulator; the first exception of \<open>validateProp\<close> leaves the loop.
\<close>

fun validate_loop :: "jsstring list \<Rightarrow> obj \<Rightarrow> bool \<Rightarrow> obj \<Rightarrow> jserror + obj" where
  "validate_loop [] props is_required safeProps = Inr safeProps"
| "validate_loop (prop # rest) props is_required safeProps =
     (let val = get_prop props prop in
      case validateProp prop val is_required of
        Inl e \<Rightarrow> Inl e
      | Inr u \<Rightarrow> validate_loop rest props is_required (set_prop safeProps prop val))"

definition validate :: "obj \<Rightarrow> bool \<Rightarrow> jserror + obj" where
  "validate props is_required = validate_loop (map fst VALIDATION_INFO) props is_required []"

section \<open>The graph store gateway\<close>

text \<open>
  The store is an external collaborator. A request is a query text with named parameters;
  the reply is what the driver hands to the callback \<open>function (err, results)\<close>: an
  error or \<open>null\<close>, and the result rows. Each row maps the aliases of the query's
  \<open>RETURN\<close> clause to values: \<open>answer\<close> for the queries that return one node per row,
  \<open>other\<close> and \<open>COUNT(rel)\<close> for the query of \<open>getFollowingAndOthers\<close>.
\<close>

record neo4j_node =
  node_id :: nat
  labels :: "jsstring list"
  properties :: obj

datatype param = Val jsval | Props obj

record request =
  query :: jsstring
  params :: "(jsstring \<times> param) list"

record answer_row =
  row_answer :: neo4j_node

record other_row =
  row_other :: neo4j_node
  row_count_rel :: nat

type_synonym 'row reply = "jserror option \<times> 'row list"

definition NEWLINE :: jsstring where
  "NEWLINE = [0x0A]"

fun join :: "jsstring \<Rightarrow> jsstring list \<Rightarrow> jsstring" where
  "join sep [] = []"
| "join sep [x] = x"
| "join sep (x # y # ys) = x @ sep @ join sep (y # ys)"

text \<open>\<open>results[0]['answer']\<close>: reading a property of \<open>results[0]\<close> raises when there is no row.\<close>

definition first_row :: "'row list \<Rightarrow> jserror + 'row" where
  "first_row results = (case results of [] \<Rightarrow> Inl TypeError | r # rest \<Rightarrow> Inr r)"

definition CONSTRAINT_VIOLATION :: jsstring where
  "CONSTRAINT_VIOLATION = js ''Neo.ClientError.Schema.ConstraintViolation''"

fun isConstraintViolation :: "jserror option \<Rightarrow> bool" where
  "isConstraintViolation (Some (ClientError code msg)) = (code = CONSTRAINT_VIOLATION)"
| "isConstraintViolation err = False"

section \<open>The Answer entity\<close>

datatype Answer = Answer (node: neo4j_node)

definition answername :: "Answer \<Rightarrow> jsval" where
  "answername a = get_prop (properties (node a)) ANSWERNAME"

section \<open>The repository operations\<close>

text \<open>
  What a caller observes of one operation: the request sent to the store (none when the
  operation left before sending), the invocations of the caller's callback in order, each
  with its error argument and its further arguments, and the exception that escaped, if
  any.
\<close>

datatype cb_value = AnswerValue Answer | AnswerList "Answer list"

type_synonym call = "jserror option \<times> cb_value list"

record outcome =
  sent :: "request option"
  calls :: "call list"
  thrown :: "jserror option"

subsection \<open>patch\<close>

text \<open>
  \<open>patch\<close> and \<open>create\<close> call \<open>validate(props)\<close> with one argument: \<open>required\<close> is
  \<open>undefined\<close>, which is false. \<open>patch_reply\<close> is the callback given to \<open>db.cypher\<close>; it
  returns the entity with its node as the callback leaves it.
\<close>

definition PATCH_QUERY :: jsstring where
  "PATCH_QUERY = join NEWLINE
     [js ''MATCH (answer:Answer {answername: {answername}})'',
      js ''SET answer += {props}'',
      js ''RETURN answer'']"

definition patch_reply :: "Answer \<Rightarrow> obj \<Rightarrow> answer_row reply \<Rightarrow> Answer \<times> call list \<times> jserror option" where
  "patch_reply self props reply =
     (let results = snd reply;
          err = (if isConstraintViolation (fst reply)
                 then Some (ValidationError
                        (js ''The answername '' @ LEFT_QUOTE @ to_string (get_prop props ANSWERNAME)
                           @ RIGHT_QUOTE @ js '' is taken.''))
                 else fst reply)
      in case err of
           Some e \<Rightarrow> (self, [(Some e, [])], None)
         | None \<Rightarrow>
             if length results = 0 then
               (self,
                [(Some (Error (js ''Answer has been deleted! Answername: '' @ to_string (answername self))),
                  [])],
                None)
             else
               (case first_row results of
                  Inl t \<Rightarrow> (self, [], Some t)
                | Inr r \<Rightarrow> (Answer (row_answer r), [(None, [])], None)))"

definition patch :: "Answer \<Rightarrow> obj \<Rightarrow> answer_row reply \<Rightarrow> Answer \<times> outcome" where
  "patch self props reply =
     (case validate props False of
        Inl e \<Rightarrow> (self, \<lparr>sent = None, calls = [], thrown = Some e\<rparr>)
      | Inr safeProps \<Rightarrow>
          (let request = \<lparr>query = PATCH_QUERY,
                          params = [(ANSWERNAME, Val (answername self)),
                                    (js ''props'', Props safeProps)]\<rparr>;
               after = patch_reply self props reply
           in (fst after, \<lparr>sent = Some request, calls = fst (snd after), thrown = snd (snd after)\<rparr>)))"

subsection \<open>del, follow, unfollow\<close>

definition DEL_QUERY :: jsstring where
  "DEL_QUERY = join NEWLINE
     [js ''MATCH (answer:Answer {answername: {answername}})'',
      js ''OPTIONAL MATCH (answer) -[rel:follows]- (other)'',
      js ''DELETE answer, rel'']"

definition del :: "Answer \<Rightarrow> jserror option \<Rightarrow> outcome" where
  "del self err =
     \<lparr>sent = Some \<lparr>query = DEL_QUERY, params = [(ANSWERNAME, Val (answername self))]\<rparr>,
      calls = [(err, [])], thrown = None\<rparr>"

definition FOLLOW_QUERY :: jsstring where
  "FOLLOW_QUERY = join NEWLINE
     [js ''MATCH (answer:Answer {answername: {thisAnswername}})'',
      js ''MATCH (other:Answer {answername: {otherAnswername}})'',
      js ''MERGE (answer) -[rel:follows]-> (other)'']"

definition follow :: "Answer \<Rightarrow> Answer \<Rightarrow> jserror option \<Rightarrow> outcome" where
  "follow self other err =
     \<lparr>sent = Some \<lparr>query = FOLLOW_QUERY,
                    params = [(js ''thisAnswername'', Val (answername self)),
                              (js ''otherAnswername'', Val (answername other))]\<rparr>,
      calls = [(err, [])], thrown = None\<rparr>"

definition UNFOLLOW_QUERY :: jsstring where
  "UNFOLLOW_QUERY = join NEWLINE
     [js ''MATCH (answer:Answer {answername: {thisAnswername}})'',
      js ''MATCH (other:Answer {answername: {otherAnswername}})'',
      js ''MATCH (answer) -[rel:follows]-> (other)'',
      js ''DELETE rel'']"

definition unfollow :: "Answer \<Rightarrow> Answer \<Rightarrow> jserror option \<Rightarrow> outcome" where
  "unfollow self other err =
     \<lparr>sent = Some \<lparr>query = UNFOLLOW_QUERY,
                    params = [(js ''thisAnswername'', Val (answername self)),
                              (js ''otherAnswername'', Val (answername other))]\<rparr>,
      calls = [(err, [])], thrown = None\<rparr>"

subsection \<open>getFollowingAndOthers\<close>

definition FOLLOWING_QUERY :: jsstring where
  "FOLLOWING_QUERY = join NEWLINE
     [js ''MATCH (answer:Answer {answername: {thisAnswername}})'',
      js ''MATCH (other:Answer)'',
      js ''OPTIONAL MATCH (answer) -[rel:follows]-> (other)'',
      js ''RETURN other, COUNT(rel)'']"

text \<open>
  The \<open>for\<close> loop over the rows, with the arrays \<open>following\<close> and \<open>others\<close> as
  accumulators; \<open>push\<close> appends at the end. \<open>===\<close> on these values is equality.
\<close>

fun partition_loop :: "Answer \<Rightarrow> other_row list \<Rightarrow> Answer list \<Rightarrow> Answer list \<Rightarrow> Answer list \<times> Answer list" where
  "partition_loop self [] following others = (following, others)"
| "partition_loop self (result # rest) following others =
     (let other = Answer (row_other result);
          follows = row_count_rel result
      in if answername self = answername other then partition_loop self rest following others
         else if follows \<noteq> 0 then partition_loop self rest (following @ [other]) others
         else partition_loop self rest following (others @ [other]))"

definition getFollowingAndOthers :: "Answer \<Rightarrow> other_row reply \<Rightarrow> outcome" where
  "getFollowingAndOthers self reply =
     \<lparr>sent = Some \<lparr>query = FOLLOWING_QUERY,
                    params = [(js ''thisAnswername'', Val (answername self))]\<rparr>,
      calls =
        (case fst reply of
           Some e \<Rightarrow> [(Some e, [])]
         | None \<Rightarrow>
             (let lists = partition_loop self (snd reply) [] []
              in [(None, [AnswerList (fst lists), AnswerList (snd lists)])])),
      thrown = None\<rparr>"

subsection \<open>get, getAll, create\<close>

definition GET_QUERY :: jsstring where
  "GET_QUERY = join NEWLINE
     [js ''MATCH (answer:Answer {answername: {answername}})'',
      js ''RETURN answer'']"

definition get_reply :: "jsval \<Rightarrow> answer_row reply \<Rightarrow> call list \<times> jserror option" where
  "get_reply key reply =
     (case fst reply of
        Some e \<Rightarrow> ([(Some e, [])], None)
      | None \<Rightarrow>
          if length (snd reply) = 0 then
            ([(Some (Error (js ''No such answer with answername: '' @ to_string key)), [])], None)
          else
            (case first_row (snd reply) of
               Inl t \<Rightarrow> ([], Some t)
             | Inr r \<Rightarrow> ([(None, [AnswerValue (Answer (row_answer r))])], None)))"

definition get :: "jsval \<Rightarrow> answer_row reply \<Rightarrow> outcome" where
  "get key reply =
     (let after = get_reply key reply
      in \<lparr>sent = Some \<lparr>query = GET_QUERY, params = [(ANSWERNAME, Val key)]\<rparr>,
          calls = fst after, thrown = snd after\<rparr>)"

definition GETALL_QUERY :: jsstring where
  "GETALL_QUERY = join NEWLINE
     [js ''MATCH (answer:Answer)'',
      js ''RETURN answer'']"

definition getAll :: "answer_row reply \<Rightarrow> outcome" where
  "getAll reply =
     \<lparr>sent = Some \<lparr>query = GETALL_QUERY, params = []\<rparr>,
      calls =
        (case fst reply of
           Some e \<Rightarrow> [(Some e, [])]
         | None \<Rightarrow> [(None, [AnswerList (map (\<lambda>result. Answer (row_answer result)) (snd reply))])]),
      thrown = None\<rparr>"

definition CREATE_QUERY :: jsstring where
  "CREATE_QUERY = join NEWLINE
     [js ''CREATE (answer:Answer {props})'',
      js ''RETURN answer'']"

definition create_reply :: "obj \<Rightarrow> answer_row reply \<Rightarrow> call list \<times> jserror option" where
  "create_reply props reply =
     (let err = (if isConstraintViolation (fst reply)
                 then Some (ValidationError
                        (js ''The answername '' @ LEFT_QUOTE @ to_string (get_prop props ANSWERNAME)
                           @ RIGHT_QUOTE @ js '' is taken.''))
                 else fst reply)
      in case err of
           Some e \<Rightarrow> ([(Some e, [])], None)
         | None \<Rightarrow>
             (case first_row (snd reply) of
                Inl t \<Rightarrow> ([], Some t)
              | Inr r \<Rightarrow> ([(None, [AnswerValue (Answer (row_answer r))])], None)))"

definition create :: "obj \<Rightarrow> answer_row reply \<Rightarrow> outcome" where
  "create props reply =
     (case validate props False of
        Inl e \<Rightarrow> \<lparr>sent = None, calls = [], thrown = Some e\<rparr>
      | Inr safeProps \<Rightarrow>
          (let after = create_reply props reply
           in \<lparr>sent = Some \<lparr>query = CREATE_QUERY, params = [(js ''props'', Props safeProps)]\<rparr>,
               calls = fst after, thrown = snd after\<rparr>))"

section \<open>Notions used to state the properties\<close>

text \<open>
  The identity-key rule in the specification's words: 2 to 16 characters, all of them
  letters, digits or underscores.
\<close>

definition is_word_char :: "code_unit \<Rightarrow> bool" where
  "is_word_char c =
     ((0x41 \<le> c \<and> c \<le> 0x5A) \<or> (0x61 \<le> c \<and> c \<le> 0x7A) \<or> (0x30 \<le> c \<and> c \<le> 0x39) \<or> c = 0x5F)"

definition spec_valid_answername :: "jsstring \<Rightarrow> bool" where
  "spec_valid_answername s =
     (2 \<le> length s \<and> length s \<le> 16 \<and> s \<noteq> [] \<and> list_all is_word_char s)"

text \<open>
  An operation has completed once when nothing was thrown and the callback was invoked a
  single time, either with an error and nothing else, or with \<open>null\<close> for the error and
  the \<open>n\<close> result values of the operation.
\<close>

definition completes_once :: "nat \<Rightarrow> outcome \<Rightarrow> bool" where
  "completes_once n out =
     (thrown out = None \<and>
      (case calls out of
         [c] \<Rightarrow> (case fst c of Some e \<Rightarrow> snd c = [] | None \<Rightarrow> length (snd c) = n)
       | _ \<Rightarrow> False))"

text \<open>An operation ends in an error when it throws or hands an error to the callback.\<close>

definition ends_in_error :: "outcome \<Rightarrow> bool" where
  "ends_in_error out = (thrown out \<noteq> None \<or> list_ex (\<lambda>c. fst c \<noteq> None) (calls out))"

text \<open>Sample data on which the operations are evaluated.\<close>

definition sample_node :: "jsstring \<Rightarrow> neo4j_node" where
  "sample_node name = \<lparr>node_id = 0, labels = [js ''Answer''], properties = [(ANSWERNAME, Str name)]\<rparr>"

definition sample_rows :: "other_row list" where
  "sample_rows =
     [\<lparr>row_other = sample_node (js ''al''), row_count_rel = 1\<rparr>,
      \<lparr>row_other = sample_node (js ''me''), row_count_rel = 0\<rparr>,
      \<lparr>row_other = sample_node (js ''bo''), row_count_rel = 0\<rparr>,
      \<lparr>row_other = sample_node (js ''cy''), row_count_rel = 1\<rparr>]"

section \<open>Validation\<close>

lemma in_class_WORD_CLASS: "in_class WORD_CLASS c = is_word_char c"
  by (auto simp add: WORD_CLASS_def in_class_def is_word_char_def)

lemma list_all_in_class: "list_all (in_class WORD_CLASS) s = list_all is_word_char s"
  by (induction s) (simp_all add: in_class_WORD_CLASS)

lemma info_answername:
  "map_of VALIDATION_INFO ANSWERNAME =
     Some \<lparr>required = True, minLength = 2, maxLength = 16,
           pattern = Some (AnchoredClassPlus WORD_CLASS), message = REQUIREMENTS\<rparr>"
  by (simp add: VALIDATION_INFO_def)

lemma validateProp_falsy:
  "\<not> truthy val \<Longrightarrow>
   validateProp ANSWERNAME val is_required =
     (if is_required then Inl (ValidationError (js ''Missing '' @ ANSWERNAME @ js '' (required).''))
      else Inr ())"
  by (simp add: validateProp_def info_answername)

lemma validateProp_Str:
  "s \<noteq> [] \<Longrightarrow>
   validateProp ANSWERNAME (Str s) is_required =
     (if length s < 2 then
        Inl (ValidationError (js ''Invalid '' @ ANSWERNAME @ js '' (too short). Requirements: '' @ REQUIREMENTS))
      else if length s > 16 then
        Inl (ValidationError (js ''Invalid '' @ ANSWERNAME @ js '' (too long). Requirements: '' @ REQUIREMENTS))
      else if \<not> list_all is_word_char s then
        Inl (ValidationError (js ''Invalid '' @ ANSWERNAME @ js '' (format). Requirements: '' @ REQUIREMENTS))
      else Inr ())"
  by (simp add: validateProp_def info_answername list_all_in_class)

lemma validate_answername:
  "validate props is_required =
     (case validateProp ANSWERNAME (get_prop props ANSWERNAME) is_required of
        Inl e \<Rightarrow> Inl e
      | Inr u \<Rightarrow> Inr [(ANSWERNAME, get_prop props ANSWERNAME)])"
  by (simp add: validate_def VALIDATION_INFO_def set_prop_def split: sum.splits)

text \<open>
  C1. With \<open>required = true\<close>, \<open>validateProp\<close> accepts a string as \<open>answername\<close> exactly
  when its length is between 2 and 16 and all its characters are letters, digits or
  underscores. Every rejection is a \<open>ValidationError\<close>. \<open>"ab"\<close> is accepted; \<open>"a"\<close> is
  rejected as too short, every string of 17 characters as too long, and \<open>"a b"\<close> for its
  format, each with the requirement message.
\<close>

theorem validateProp_answername_required:
  "(validateProp ANSWERNAME (Str s) True = Inr ()) = spec_valid_answername s
   \<and> (\<forall>e. validateProp ANSWERNAME (Str s) True = Inl e \<longrightarrow> is_ValidationError e)
   \<and> validateProp ANSWERNAME (Str (js ''ab'')) True = Inr ()
   \<and> validateProp ANSWERNAME (Str (js ''a'')) True =
       Inl (ValidationError (js ''Invalid answername (too short). Requirements: '' @ REQUIREMENTS))
   \<and> (length s = 17 \<longrightarrow> validateProp ANSWERNAME (Str s) True =
       Inl (ValidationError (js ''Invalid answername (too long). Requirements: '' @ REQUIREMENTS)))
   \<and> validateProp ANSWERNAME (Str (js ''a b'')) True =
       Inl (ValidationError (js ''Invalid answername (format). Requirements: '' @ REQUIREMENTS))"
proof -
  have iff: "(validateProp ANSWERNAME (Str s) True = Inr ()) = spec_valid_answername s"
  proof (cases "s = []")
    case True
    then show ?thesis by (simp add: validateProp_falsy spec_valid_answername_def)
  next
    case False
    then show ?thesis by (auto simp add: validateProp_Str spec_valid_answername_def)
  qed
  have kind: "\<forall>e. validateProp ANSWERNAME (Str s) True = Inl e \<longrightarrow> is_ValidationError e"
  proof (cases "s = []")
    case True
    then show ?thesis by (auto simp add: validateProp_falsy)
  next
    case False
    then show ?thesis by (auto simp add: validateProp_Str split: if_splits)
  qed
  have ab: "validateProp ANSWERNAME (Str (js ''ab'')) True = Inr ()"
    by (subst validateProp_Str) (simp_all add: js_def ANSWERNAME_def is_word_char_def)
  have a: "validateProp ANSWERNAME (Str (js ''a'')) True =
       Inl (ValidationError (js ''Invalid answername (too short). Requirements: '' @ REQUIREMENTS))"
    by (subst validateProp_Str) (simp_all add: js_def ANSWERNAME_def)
  have long: "length s = 17 \<longrightarrow> validateProp ANSWERNAME (Str s) True =
       Inl (ValidationError (js ''Invalid answername (too long). Requirements: '' @ REQUIREMENTS))"
  proof
    assume len: "length s = 17"
    then have "s \<noteq> []" by auto
    with len show "validateProp ANSWERNAME (Str s) True =
       Inl (ValidationError (js ''Invalid answername (too long). Requirements: '' @ REQUIREMENTS))"
      by (subst validateProp_Str) (simp_all add: js_def ANSWERNAME_def)
  qed
  have fmt: "validateProp ANSWERNAME (Str (js ''a b'')) True =
       Inl (ValidationError (js ''Invalid answername (format). Requirements: '' @ REQUIREMENTS))"
    by (subst validateProp_Str) (simp_all add: js_def ANSWERNAME_def is_word_char_def)
  from iff kind ab a long fmt show ?thesis by blast
qed

theorem validateProp_answername_required_witness:
  "length (js ''abcdefghijklmnopq'') = 17
   \<and> \<not> spec_valid_answername (js ''abcdefghijklmnopq'')
   \<and> validateProp ANSWERNAME (Str (js ''abcdefghijklmnopq'')) True =
       Inl (ValidationError (js ''Invalid answername (too long). Requirements: '' @ REQUIREMENTS))
   \<and> is_ValidationError
       (ValidationError (js ''Invalid answername (too long). Requirements: '' @ REQUIREMENTS))"
proof -
  have len: "length (js ''abcdefghijklmnopq'') = 17"
    by (simp add: js_def)
  have bad: "\<not> spec_valid_answername (js ''abcdefghijklmnopq'')"
    by (simp add: spec_valid_answername_def js_def)
  from validateProp_answername_required [of "js ''abcdefghijklmnopq''"] len bad
  show ?thesis by simp
qed

lemma message_too_short:
  "js ''Invalid '' @ ANSWERNAME @ js '' (too short). Requirements: '' =
   js ''Invalid answername (too short). Requirements: ''"
  by (simp add: js_def ANSWERNAME_def)

lemma message_too_long:
  "js ''Invalid '' @ ANSWERNAME @ js '' (too long). Requirements: '' =
   js ''Invalid answername (too long). Requirements: ''"
  by (simp add: js_def ANSWERNAME_def)

lemma message_format:
  "js ''Invalid '' @ ANSWERNAME @ js '' (format). Requirements: '' =
   js ''Invalid answername (format). Requirements: ''"
  by (simp add: js_def ANSWERNAME_def)

lemma validate_falsy:
  "\<not> truthy (get_prop props ANSWERNAME) \<Longrightarrow>
   validate props False = Inr [(ANSWERNAME, get_prop props ANSWERNAME)]"
  by (simp add: validate_answername validateProp_falsy)

lemma validate_Str:
  "get_prop props ANSWERNAME = Str s \<Longrightarrow> s \<noteq> [] \<Longrightarrow>
   validate props False =
     (if length s < 2 then
        Inl (ValidationError (js ''Invalid answername (too short). Requirements: '' @ REQUIREMENTS))
      else if length s > 16 then
        Inl (ValidationError (js ''Invalid answername (too long). Requirements: '' @ REQUIREMENTS))
      else if \<not> list_all is_word_char s then
        Inl (ValidationError (js ''Invalid answername (format). Requirements: '' @ REQUIREMENTS))
      else Inr [(ANSWERNAME, Str s)])"
  using message_too_short message_too_long message_format
  by (simp add: validate_answername validateProp_Str)

lemma validate_error_kind: "validate props False = Inl e \<Longrightarrow> is_ValidationError e"
proof (cases "truthy (get_prop props ANSWERNAME)")
  case False
  assume "validate props False = Inl e"
  with False show ?thesis by (simp add: validate_falsy)
next
  case True
  assume v: "validate props False = Inl e"
  from True obtain s where s: "get_prop props ANSWERNAME = Str s" "s \<noteq> []"
    by (cases "get_prop props ANSWERNAME") auto
  from v show ?thesis
    by (auto simp add: validate_Str [OF s] split: if_splits)
qed

lemma validate_ab:
  "validate [(ANSWERNAME, Str (js ''ab''))] False = Inr [(ANSWERNAME, Str (js ''ab''))]"
proof -
  have "get_prop [(ANSWERNAME, Str (js ''ab''))] ANSWERNAME = Str (js ''ab'')"
    by (simp add: get_prop_def)
  moreover have "js ''ab'' \<noteq> []" by (simp add: js_def)
  ultimately show ?thesis
    by (simp add: validate_Str) (simp add: js_def is_word_char_def)
qed

lemma validate_a:
  "validate [(ANSWERNAME, Str (js ''a''))] False =
     Inl (ValidationError (js ''Invalid answername (too short). Requirements: '' @ REQUIREMENTS))"
proof -
  have "get_prop [(ANSWERNAME, Str (js ''a''))] ANSWERNAME = Str (js ''a'')"
    by (simp add: get_prop_def)
  moreover have "js ''a'' \<noteq> []" by (simp add: js_def)
  ultimately show ?thesis
    by (simp add: validate_Str) (simp add: js_def)
qed

text \<open>
  C8, as stated, fails: a field that is present with the empty string is not checked
  against the bounds and the pattern. With \<open>required\<close> false, \<open>validate\<close> returns
  \<open>{answername: ""}\<close> although the empty string is shorter than 2 and does not match.
\<close>

theorem validate_present_empty_accepted:
  "map_of [(ANSWERNAME, Str [])] ANSWERNAME = Some (Str [])
   \<and> \<not> spec_valid_answername []
   \<and> validate [(ANSWERNAME, Str [])] False = Inr [(ANSWERNAME, Str [])]"
  by (simp add: spec_valid_answername_def validate_falsy get_prop_def)

text \<open>
  C8, amended. With \<open>required\<close> false, an absent \<open>answername\<close> passes without error, as
  does every value that is \<open>undefined\<close>, \<open>null\<close> or the empty string; an \<open>answername\<close>
  that is present with a non-empty string is checked against the length bounds and the
  pattern: it passes exactly when it is valid, and is otherwise rejected with the
  \<open>ValidationError\<close> of the first check it fails.
\<close>

theorem validate_optional:
  "(map_of props ANSWERNAME = None \<longrightarrow> validate props False = Inr [(ANSWERNAME, Undefined)])
   \<and> (\<not> truthy (get_prop props ANSWERNAME) \<longrightarrow>
        validate props False = Inr [(ANSWERNAME, get_prop props ANSWERNAME)])
   \<and> (map_of props ANSWERNAME = Some (Str s) \<and> s \<noteq> [] \<longrightarrow>
        validate props False =
          (if length s < 2 then
             Inl (ValidationError (js ''Invalid answername (too short). Requirements: '' @ REQUIREMENTS))
           else if length s > 16 then
             Inl (ValidationError (js ''Invalid answername (too long). Requirements: '' @ REQUIREMENTS))
           else if \<not> list_all is_word_char s then
             Inl (ValidationError (js ''Invalid answername (format). Requirements: '' @ REQUIREMENTS))
           else Inr [(ANSWERNAME, Str s)])
        \<and> ((\<exists>safeProps. validate props False = Inr safeProps) = spec_valid_answername s))"
proof -
  have absent: "map_of props ANSWERNAME = None \<longrightarrow> validate props False = Inr [(ANSWERNAME, Undefined)]"
  proof
    assume "map_of props ANSWERNAME = None"
    then have g: "get_prop props ANSWERNAME = Undefined" by (simp add: get_prop_def)
    then have "\<not> truthy (get_prop props ANSWERNAME)" by simp
    from validate_falsy [OF this] g
    show "validate props False = Inr [(ANSWERNAME, Undefined)]" by simp
  qed
  have present: "map_of props ANSWERNAME = Some (Str s) \<and> s \<noteq> [] \<longrightarrow>
        validate props False =
          (if length s < 2 then
             Inl (ValidationError (js ''Invalid answername (too short). Requirements: '' @ REQUIREMENTS))
           else if length s > 16 then
             Inl (ValidationError (js ''Invalid answername (too long). Requirements: '' @ REQUIREMENTS))
           else if \<not> list_all is_word_char s then
             Inl (ValidationError (js ''Invalid answername (format). Requirements: '' @ REQUIREMENTS))
           else Inr [(ANSWERNAME, Str s)])
        \<and> ((\<exists>safeProps. validate props False = Inr safeProps) = spec_valid_answername s)"
  proof
    assume a: "map_of props ANSWERNAME = Some (Str s) \<and> s \<noteq> []"
    then have g: "get_prop props ANSWERNAME = Str s" by (simp add: get_prop_def)
    from a have ne: "s \<noteq> []" by simp
    note v = validate_Str [OF g ne]
    have "(\<exists>safeProps. validate props False = Inr safeProps) = spec_valid_answername s"
      using ne by (auto simp add: v spec_valid_answername_def)
    with v show "validate props False =
          (if length s < 2 then
             Inl (ValidationError (js ''Invalid answername (too short). Requirements: '' @ REQUIREMENTS))
           else if length s > 16 then
             Inl (ValidationError (js ''Invalid answername (too long). Requirements: '' @ REQUIREMENTS))
           else if \<not> list_all is_word_char s then
             Inl (ValidationError (js ''Invalid answername (format). Requirements: '' @ REQUIREMENTS))
           else Inr [(ANSWERNAME, Str s)])
        \<and> ((\<exists>safeProps. validate props False = Inr safeProps) = spec_valid_answername s)"
      by simp
  qed
  have falsy: "\<not> truthy (get_prop props ANSWERNAME) \<longrightarrow>
        validate props False = Inr [(ANSWERNAME, get_prop props ANSWERNAME)]"
    by (simp add: validate_falsy)
  from absent falsy present show ?thesis by blast
qed

theorem validate_optional_witness:
  "map_of ([] :: obj) ANSWERNAME = None
   \<and> validate [] False = Inr [(ANSWERNAME, Undefined)]
   \<and> map_of [(ANSWERNAME, Str (js ''a''))] ANSWERNAME = Some (Str (js ''a''))
   \<and> js ''a'' \<noteq> []
   \<and> validate [(ANSWERNAME, Str (js ''a''))] False =
       Inl (ValidationError (js ''Invalid answername (too short). Requirements: '' @ REQUIREMENTS))"
proof -
  have one: "length (js ''a'') = 1" by (simp add: js_def)
  then have ne: "js ''a'' \<noteq> []" by auto
  from validate_optional [of "[]" "js ''a''"]
       validate_optional [of "[(ANSWERNAME, Str (js ''a''))]" "js ''a''"] one ne
  show ?thesis by simp
qed

section \<open>The operations\<close>

lemma patch_valid:
  "validate props False = Inr safeProps \<Longrightarrow>
   fst (patch self props reply) = fst (patch_reply self props reply)
   \<and> calls (snd (patch self props reply)) = fst (snd (patch_reply self props reply))
   \<and> thrown (snd (patch self props reply)) = snd (snd (patch_reply self props reply))
   \<and> sent (snd (patch self props reply)) =
       Some \<lparr>query = PATCH_QUERY,
             params = [(ANSWERNAME, Val (answername self)), (js ''props'', Props safeProps)]\<rparr>"
  by (simp add: patch_def Let_def)

lemma patch_invalid:
  "validate props False = Inl e \<Longrightarrow>
   patch self props reply = (self, \<lparr>sent = None, calls = [], thrown = Some e\<rparr>)"
  by (simp add: patch_def)

lemma create_valid:
  "validate props False = Inr safeProps \<Longrightarrow>
   create props reply =
     \<lparr>sent = Some \<lparr>query = CREATE_QUERY, params = [(js ''props'', Props safeProps)]\<rparr>,
      calls = fst (create_reply props reply), thrown = snd (create_reply props reply)\<rparr>"
  by (simp add: create_def Let_def)

lemma create_invalid:
  "validate props False = Inl e \<Longrightarrow>
   create props reply = \<lparr>sent = None, calls = [], thrown = Some e\<rparr>"
  by (simp add: create_def)

lemma isConstraintViolation_iff:
  "isConstraintViolation (Some e) = (\<exists>msg. e = ClientError CONSTRAINT_VIOLATION msg)"
  by (cases e) auto

lemma patch_reply_error:
  "patch_reply self props (Some e, rows) =
     (self,
      [(Some (if isConstraintViolation (Some e)
              then ValidationError
                     (js ''The answername '' @ LEFT_QUOTE @ to_string (get_prop props ANSWERNAME)
                        @ RIGHT_QUOTE @ js '' is taken.'')
              else e), [])],
      None)"
  by (simp add: patch_reply_def)

lemma patch_reply_zero_rows:
  "patch_reply self props (None, []) =
     (self,
      [(Some (Error (js ''Answer has been deleted! Answername: '' @ to_string (answername self))), [])],
      None)"
  by (simp add: patch_reply_def)

lemma patch_reply_rows:
  "patch_reply self props (None, r # rest) = (Answer (row_answer r), [(None, [])], None)"
  by (simp add: patch_reply_def first_row_def)

lemma create_reply_error:
  "create_reply props (Some e, rows) =
     ([(Some (if isConstraintViolation (Some e)
              then ValidationError
                     (js ''The answername '' @ LEFT_QUOTE @ to_string (get_prop props ANSWERNAME)
                        @ RIGHT_QUOTE @ js '' is taken.'')
              else e), [])],
      None)"
  by (simp add: create_reply_def)

lemma create_reply_zero_rows: "create_reply props (None, []) = ([], Some TypeError)"
  by (simp add: create_reply_def first_row_def)

lemma create_reply_rows:
  "create_reply props (None, r # rest) = ([(None, [AnswerValue (Answer (row_answer r))])], None)"
  by (simp add: create_reply_def first_row_def)

lemma reply_cases:
  obtains (error) e rows where "reply = (Some e, rows)"
        | (zero) "reply = (None, [])"
        | (rows) r rest where "reply = (None, r # rest)"
proof (cases reply)
  case (Pair err results)
  show ?thesis
  proof (cases err)
    case None
    with Pair zero rows show ?thesis by (cases results) auto
  next
    case (Some e)
    with Pair error show ?thesis by auto
  qed
qed

lemma patch_error:
  "validate props False = Inr safeProps \<Longrightarrow>
   patch self props (Some e, rows) =
     (self,
      \<lparr>sent = Some \<lparr>query = PATCH_QUERY,
                    params = [(ANSWERNAME, Val (answername self)), (js ''props'', Props safeProps)]\<rparr>,
       calls = [(Some (if isConstraintViolation (Some e)
                       then ValidationError
                              (js ''The answername '' @ LEFT_QUOTE
                                 @ to_string (get_prop props ANSWERNAME)
                                 @ RIGHT_QUOTE @ js '' is taken.'')
                       else e), [])],
       thrown = None\<rparr>)"
  by (simp add: patch_def Let_def patch_reply_error)

lemma patch_zero:
  "validate props False = Inr safeProps \<Longrightarrow>
   patch self props (None, []) =
     (self,
      \<lparr>sent = Some \<lparr>query = PATCH_QUERY,
                    params = [(ANSWERNAME, Val (answername self)), (js ''props'', Props safeProps)]\<rparr>,
       calls = [(Some (Error (js ''Answer has been deleted! Answername: ''
                                @ to_string (answername self))), [])],
       thrown = None\<rparr>)"
  by (simp add: patch_def Let_def patch_reply_zero_rows)

lemma patch_rows:
  "validate props False = Inr safeProps \<Longrightarrow>
   patch self props (None, r # rest) =
     (Answer (row_answer r),
      \<lparr>sent = Some \<lparr>query = PATCH_QUERY,
                    params = [(ANSWERNAME, Val (answername self)), (js ''props'', Props safeProps)]\<rparr>,
       calls = [(None, [])],
       thrown = None\<rparr>)"
  by (simp add: patch_def Let_def patch_reply_rows)

text \<open>
  C2. Once the input has passed validation and the query has been sent: when the store's
  error is a constraint violation (a \<open>ClientError\<close> whose code is
  \<open>Neo.ClientError.Schema.ConstraintViolation\<close>), \<open>create\<close> and \<open>patch\<close> hand the
  callback a \<open>ValidationError\<close> whose message quotes the submitted \<open>answername\<close> and
  says it is taken, and the store's error is not handed over; every other error of the
  store is handed over as it is.
\<close>

theorem constraint_violation_remapped:
  assumes "validate props False = Inr safeProps"
  shows "(isConstraintViolation (Some e) \<longrightarrow>
            calls (create props (Some e, rows)) =
              [(Some (ValidationError
                 (js ''The answername '' @ LEFT_QUOTE @ to_string (get_prop props ANSWERNAME)
                    @ RIGHT_QUOTE @ js '' is taken.'')), [])]
          \<and> calls (snd (patch self props (Some e, rows))) =
              [(Some (ValidationError
                 (js ''The answername '' @ LEFT_QUOTE @ to_string (get_prop props ANSWERNAME)
                    @ RIGHT_QUOTE @ js '' is taken.'')), [])]
          \<and> \<not> list_ex (\<lambda>c. fst c = Some e) (calls (create props (Some e, rows)))
          \<and> \<not> list_ex (\<lambda>c. fst c = Some e) (calls (snd (patch self props (Some e, rows)))))
       \<and> (\<not> isConstraintViolation (Some e) \<longrightarrow>
            calls (create props (Some e, rows)) = [(Some e, [])]
          \<and> calls (snd (patch self props (Some e, rows))) = [(Some e, [])])
       \<and> thrown (create props (Some e, rows)) = None
       \<and> thrown (snd (patch self props (Some e, rows))) = None
       \<and> isConstraintViolation (Some e) = (\<exists>msg. e = ClientError CONSTRAINT_VIOLATION msg)"
proof -
  have c: "calls (create props (Some e, rows)) = fst (create_reply props (Some e, rows))"
    and ct: "thrown (create props (Some e, rows)) = snd (create_reply props (Some e, rows))"
    by (simp_all add: create_valid [OF assms])
  have p: "calls (snd (patch self props (Some e, rows))) = fst (snd (patch_reply self props (Some e, rows)))"
    and pt: "thrown (snd (patch self props (Some e, rows))) = snd (snd (patch_reply self props (Some e, rows)))"
    by (simp_all add: patch_valid [OF assms])
  have remapped: "isConstraintViolation (Some e) \<longrightarrow>
            calls (create props (Some e, rows)) =
              [(Some (ValidationError
                 (js ''The answername '' @ LEFT_QUOTE @ to_string (get_prop props ANSWERNAME)
                    @ RIGHT_QUOTE @ js '' is taken.'')), [])]
          \<and> calls (snd (patch self props (Some e, rows))) =
              [(Some (ValidationError
                 (js ''The answername '' @ LEFT_QUOTE @ to_string (get_prop props ANSWERNAME)
                    @ RIGHT_QUOTE @ js '' is taken.'')), [])]
          \<and> \<not> list_ex (\<lambda>c. fst c = Some e) (calls (create props (Some e, rows)))
          \<and> \<not> list_ex (\<lambda>c. fst c = Some e) (calls (snd (patch self props (Some e, rows))))"
    unfolding c p create_reply_error patch_reply_error
    by (cases e) auto
  have unchanged: "\<not> isConstraintViolation (Some e) \<longrightarrow>
            calls (create props (Some e, rows)) = [(Some e, [])]
          \<and> calls (snd (patch self props (Some e, rows))) = [(Some e, [])]"
    unfolding c p create_reply_error patch_reply_error by simp
  have nothrow: "thrown (create props (Some e, rows)) = None
       \<and> thrown (snd (patch self props (Some e, rows))) = None"
    unfolding ct pt create_reply_error patch_reply_error by simp
  from remapped unchanged nothrow isConstraintViolation_iff [of e]
  show ?thesis by blast
qed

theorem constraint_violation_remapped_witness:
  "validate [(ANSWERNAME, Str (js ''ab''))] False = Inr [(ANSWERNAME, Str (js ''ab''))]
   \<and> isConstraintViolation (Some (ClientError CONSTRAINT_VIOLATION (js ''exists'')))
   \<and> calls (create [(ANSWERNAME, Str (js ''ab''))]
               (Some (ClientError CONSTRAINT_VIOLATION (js ''exists'')), [])) =
       [(Some (ValidationError
          (js ''The answername '' @ LEFT_QUOTE @ js ''ab'' @ RIGHT_QUOTE @ js '' is taken.'')), [])]
   \<and> \<not> isConstraintViolation (Some (Error (js ''ECONNREFUSED'')))
   \<and> calls (snd (patch (Answer (sample_node (js ''cd''))) [(ANSWERNAME, Str (js ''ab''))]
               (Some (Error (js ''ECONNREFUSED'')), []))) =
       [(Some (Error (js ''ECONNREFUSED'')), [])]"
  using constraint_violation_remapped [OF validate_ab,
          of "ClientError CONSTRAINT_VIOLATION (js ''exists'')" "[]" "Answer (sample_node (js ''cd''))"]
        constraint_violation_remapped [OF validate_ab,
          of "Error (js ''ECONNREFUSED'')" "[]" "Answer (sample_node (js ''cd''))"]
  by (simp add: validate_ab get_prop_def)

text \<open>
  C4. When the query of \<open>patch\<close> succeeds with zero rows, \<open>patch\<close> hands the callback an
  \<open>Error\<close> saying that the answer has been deleted and naming its \<open>answername\<close>; the
  error is not a \<open>ValidationError\<close>, the call ends in an error and the entity keeps its
  node.
\<close>

theorem patch_zero_rows:
  assumes "validate props False = Inr safeProps"
  shows "fst (patch self props (None, [])) = self
       \<and> calls (snd (patch self props (None, []))) =
           [(Some (Error (js ''Answer has been deleted! Answername: '' @ to_string (answername self))),
             [])]
       \<and> thrown (snd (patch self props (None, []))) = None
       \<and> ends_in_error (snd (patch self props (None, [])))
       \<and> \<not> is_ValidationError
            (Error (js ''Answer has been deleted! Answername: '' @ to_string (answername self)))"
  by (simp add: patch_zero [OF assms] ends_in_error_def)

theorem patch_zero_rows_witness:
  "validate [(ANSWERNAME, Str (js ''ab''))] False = Inr [(ANSWERNAME, Str (js ''ab''))]
   \<and> calls (snd (patch (Answer (sample_node (js ''cd''))) [(ANSWERNAME, Str (js ''ab''))] (None, []))) =
       [(Some (Error (js ''Answer has been deleted! Answername: '' @ js ''cd'')), [])]
   \<and> fst (patch (Answer (sample_node (js ''cd''))) [(ANSWERNAME, Str (js ''ab''))] (None, [])) =
       Answer (sample_node (js ''cd''))"
  using patch_zero_rows [OF validate_ab, of "Answer (sample_node (js ''cd''))"]
  by (simp add: validate_ab answername_def sample_node_def get_prop_def)

text \<open>
  C5. A \<open>patch\<close> whose input is valid and whose reply has no error and at least one row
  sets the entity's node to the node of the first row, whatever the previous node and the
  submitted properties were; and a \<open>patch\<close> that does not end in an error has replaced
  the node by the node of the first row of the reply.
\<close>

theorem patch_success_replaces_node:
  "(validate props False = Inr safeProps \<longrightarrow>
      fst (patch self props (None, r # rest)) = Answer (row_answer r)
    \<and> node (fst (patch self props (None, r # rest))) = row_answer r
    \<and> calls (snd (patch self props (None, r # rest))) = [(None, [])]
    \<and> thrown (snd (patch self props (None, r # rest))) = None)
   \<and> (\<not> ends_in_error (snd (patch self props reply)) \<longrightarrow>
        (\<exists>r' rest'. snd reply = r' # rest' \<and> fst (patch self props reply) = Answer (row_answer r')))"
proof -
  have direct: "validate props False = Inr safeProps \<longrightarrow>
      fst (patch self props (None, r # rest)) = Answer (row_answer r)
    \<and> node (fst (patch self props (None, r # rest))) = row_answer r
    \<and> calls (snd (patch self props (None, r # rest))) = [(None, [])]
    \<and> thrown (snd (patch self props (None, r # rest))) = None"
  proof
    assume v: "validate props False = Inr safeProps"
    show "fst (patch self props (None, r # rest)) = Answer (row_answer r)
      \<and> node (fst (patch self props (None, r # rest))) = row_answer r
      \<and> calls (snd (patch self props (None, r # rest))) = [(None, [])]
      \<and> thrown (snd (patch self props (None, r # rest))) = None"
      by (simp add: patch_rows [OF v])
  qed
  have only: "\<not> ends_in_error (snd (patch self props reply)) \<longrightarrow>
        (\<exists>r' rest'. snd reply = r' # rest' \<and> fst (patch self props reply) = Answer (row_answer r'))"
  proof (cases "validate props False")
    case (Inl e)
    then show ?thesis by (simp add: patch_invalid ends_in_error_def)
  next
    case (Inr safe)
    show ?thesis
    proof (cases reply rule: reply_cases)
      case (error e rows)
      then show ?thesis by (simp add: patch_error [OF Inr] ends_in_error_def)
    next
      case zero
      then show ?thesis by (simp add: patch_zero [OF Inr] ends_in_error_def)
    next
      case (rows r' rest')
      then show ?thesis by (simp add: patch_rows [OF Inr])
    qed
  qed
  from direct only show ?thesis by (rule conjI)
qed

theorem patch_success_replaces_node_witness:
  "validate [(ANSWERNAME, Str (js ''ab''))] False = Inr [(ANSWERNAME, Str (js ''ab''))]
   \<and> fst (patch (Answer (sample_node (js ''cd''))) [(ANSWERNAME, Str (js ''ab''))]
            (None, [\<lparr>row_answer = sample_node (js ''xy'')\<rparr>])) =
       Answer (sample_node (js ''xy''))
   \<and> \<not> ends_in_error (snd (patch (Answer (sample_node (js ''cd''))) [(ANSWERNAME, Str (js ''ab''))]
            (None, [\<lparr>row_answer = sample_node (js ''xy'')\<rparr>])))"
  using patch_success_replaces_node [of "[(ANSWERNAME, Str (js ''ab''))]"
          "[(ANSWERNAME, Str (js ''ab''))]" "Answer (sample_node (js ''cd''))"
          "\<lparr>row_answer = sample_node (js ''xy'')\<rparr>" "[]"
          "(None, [\<lparr>row_answer = sample_node (js ''xy'')\<rparr>])"]
  by (simp add: validate_ab ends_in_error_def)

text \<open>
  C9. A \<open>patch\<close> that ends in an error leaves the entity's node as it was; a validation
  failure, an error of the store (a constraint violation included) and a reply with zero
  rows all end in an error.
\<close>

theorem patch_error_keeps_node:
  "(ends_in_error (snd (patch self props reply)) \<longrightarrow> fst (patch self props reply) = self)
   \<and> (validate props False = Inl e \<longrightarrow> ends_in_error (snd (patch self props reply)))
   \<and> (fst reply \<noteq> None \<longrightarrow> ends_in_error (snd (patch self props reply)))
   \<and> (snd reply = [] \<longrightarrow> ends_in_error (snd (patch self props reply)))"
proof (cases "validate props False")
  case (Inl e')
  then show ?thesis by (simp add: patch_invalid ends_in_error_def)
next
  case (Inr safe)
  show ?thesis
  proof (cases reply rule: reply_cases)
    case (error e' rows)
    then show ?thesis by (simp add: Inr patch_error [OF Inr] ends_in_error_def)
  next
    case zero
    then show ?thesis by (simp add: Inr patch_zero [OF Inr] ends_in_error_def)
  next
    case (rows r' rest')
    then show ?thesis by (simp add: Inr patch_rows [OF Inr] ends_in_error_def)
  qed
qed

theorem patch_error_keeps_node_witness:
  "validate [(ANSWERNAME, Str (js ''a''))] False =
     Inl (ValidationError (js ''Invalid answername (too short). Requirements: '' @ REQUIREMENTS))
   \<and> ends_in_error (snd (patch (Answer (sample_node (js ''cd''))) [(ANSWERNAME, Str (js ''a''))]
        (None, [\<lparr>row_answer = sample_node (js ''xy'')\<rparr>])))
   \<and> fst (patch (Answer (sample_node (js ''cd''))) [(ANSWERNAME, Str (js ''a''))]
        (None, [\<lparr>row_answer = sample_node (js ''xy'')\<rparr>])) = Answer (sample_node (js ''cd''))
   \<and> ends_in_error (snd (patch (Answer (sample_node (js ''cd''))) [(ANSWERNAME, Str (js ''ab''))]
        (Some (Error (js ''ECONNREFUSED'')), [])))
   \<and> fst (patch (Answer (sample_node (js ''cd''))) [(ANSWERNAME, Str (js ''ab''))]
        (Some (Error (js ''ECONNREFUSED'')), [])) = Answer (sample_node (js ''cd''))"
  using patch_error_keeps_node [of "Answer (sample_node (js ''cd''))" "[(ANSWERNAME, Str (js ''a''))]"
          "(None, [\<lparr>row_answer = sample_node (js ''xy'')\<rparr>])"
          "ValidationError (js ''Invalid answername (too short). Requirements: '' @ REQUIREMENTS)"]
        patch_error_keeps_node [of "Answer (sample_node (js ''cd''))" "[(ANSWERNAME, Str (js ''ab''))]"
          "(Some (Error (js ''ECONNREFUSED'')), [])"]
  by (simp add: validate_a)

lemma create_error:
  "validate props False = Inr safeProps \<Longrightarrow>
   create props (Some e, rows) =
     \<lparr>sent = Some \<lparr>query = CREATE_QUERY, params = [(js ''props'', Props safeProps)]\<rparr>,
      calls = [(Some (if isConstraintViolation (Some e)
                      then ValidationError
                             (js ''The answername '' @ LEFT_QUOTE
                                @ to_string (get_prop props ANSWERNAME)
                                @ RIGHT_QUOTE @ js '' is taken.'')
                      else e), [])],
      thrown = None\<rparr>"
  by (simp add: create_valid create_reply_error)

lemma create_zero:
  "validate props False = Inr safeProps \<Longrightarrow>
   create props (None, []) =
     \<lparr>sent = Some \<lparr>query = CREATE_QUERY, params = [(js ''props'', Props safeProps)]\<rparr>,
      calls = [], thrown = Some TypeError\<rparr>"
  by (simp add: create_valid create_reply_zero_rows)

lemma create_rows:
  "validate props False = Inr safeProps \<Longrightarrow>
   create props (None, r # rest) =
     \<lparr>sent = Some \<lparr>query = CREATE_QUERY, params = [(js ''props'', Props safeProps)]\<rparr>,
      calls = [(None, [AnswerValue (Answer (row_answer r))])], thrown = None\<rparr>"
  by (simp add: create_valid create_reply_rows)

lemma get_error:
  "get key (Some e, rows) =
     \<lparr>sent = Some \<lparr>query = GET_QUERY, params = [(ANSWERNAME, Val key)]\<rparr>,
      calls = [(Some e, [])], thrown = None\<rparr>"
  by (simp add: get_def get_reply_def)

lemma get_zero:
  "get key (None, []) =
     \<lparr>sent = Some \<lparr>query = GET_QUERY, params = [(ANSWERNAME, Val key)]\<rparr>,
      calls = [(Some (Error (js ''No such answer with answername: '' @ to_string key)), [])],
      thrown = None\<rparr>"
  by (simp add: get_def get_reply_def)

lemma get_rows:
  "get key (None, r # rest) =
     \<lparr>sent = Some \<lparr>query = GET_QUERY, params = [(ANSWERNAME, Val key)]\<rparr>,
      calls = [(None, [AnswerValue (Answer (row_answer r))])],
      thrown = None\<rparr>"
  by (simp add: get_def get_reply_def first_row_def)

lemma partition_loop_filter:
  "partition_loop self rows following others =
     (following @ map (\<lambda>r. Answer (row_other r))
        (filter (\<lambda>r. answername (Answer (row_other r)) \<noteq> answername self \<and> row_count_rel r \<noteq> 0) rows),
      others @ map (\<lambda>r. Answer (row_other r))
        (filter (\<lambda>r. answername (Answer (row_other r)) \<noteq> answername self \<and> row_count_rel r = 0) rows))"
proof (induction rows arbitrary: following others)
  case Nil
  show ?case by simp
next
  case (Cons result rest)
  show ?case
  proof (cases "answername self = answername (Answer (row_other result))")
    case True
    then show ?thesis by (simp add: Cons.IH Let_def)
  next
    case False
    then show ?thesis by (cases "row_count_rel result = 0") (auto simp add: Cons.IH Let_def)
  qed
qed

text \<open>
  C6. On a reply without error, \<open>getFollowingAndOthers\<close> hands the callback two lists:
  \<open>following\<close> holds, in the order of the rows, the rows whose \<open>answername\<close> differs from
  the subject's and whose count is not zero; \<open>others\<close> holds, in the order of the rows,
  those whose \<open>answername\<close> differs and whose count is zero. Rows with the subject's
  \<open>answername\<close> are in neither list.
\<close>

theorem getFollowingAndOthers_partition:
  "calls (getFollowingAndOthers self (None, rows)) =
     [(None,
       [AnswerList (map (\<lambda>r. Answer (row_other r))
          (filter (\<lambda>r. answername (Answer (row_other r)) \<noteq> answername self \<and> row_count_rel r \<noteq> 0) rows)),
        AnswerList (map (\<lambda>r. Answer (row_other r))
          (filter (\<lambda>r. answername (Answer (row_other r)) \<noteq> answername self \<and> row_count_rel r = 0) rows))])]
   \<and> thrown (getFollowingAndOthers self (None, rows)) = None"
  by (simp add: getFollowingAndOthers_def partition_loop_filter)

theorem getFollowingAndOthers_partition_witness:
  "calls (getFollowingAndOthers (Answer (sample_node (js ''me''))) (None, sample_rows)) =
     [(None,
       [AnswerList [Answer (sample_node (js ''al'')), Answer (sample_node (js ''cy''))],
        AnswerList [Answer (sample_node (js ''bo''))]])]"
  using getFollowingAndOthers_partition [of "Answer (sample_node (js ''me''))" sample_rows]
  by (simp add: sample_rows_def answername_def get_prop_def sample_node_def js_def)

text \<open>
  C7. On a reply without error and without rows, \<open>get\<close> hands the callback an \<open>Error\<close>
  saying that there is no such answer, which is not a \<open>ValidationError\<close>; on a reply
  without error and with at least one row it hands over one entity, built from the first
  row.
\<close>

theorem get_zero_rows_or_first:
  "calls (get key (None, [])) =
     [(Some (Error (js ''No such answer with answername: '' @ to_string key)), [])]
   \<and> thrown (get key (None, [])) = None
   \<and> \<not> is_ValidationError (Error (js ''No such answer with answername: '' @ to_string key))
   \<and> calls (get key (None, r # rest)) = [(None, [AnswerValue (Answer (row_answer r))])]
   \<and> thrown (get key (None, r # rest)) = None"
  by (simp add: get_zero get_rows)

theorem get_zero_rows_or_first_witness:
  "calls (get (Str (js ''zz'')) (None, [])) =
     [(Some (Error (js ''No such answer with answername: zz'')), [])]
   \<and> calls (get (Str (js ''al''))
        (None, [\<lparr>row_answer = sample_node (js ''al'')\<rparr>, \<lparr>row_answer = sample_node (js ''bo'')\<rparr>])) =
       [(None, [AnswerValue (Answer (sample_node (js ''al'')))])]"
  using get_zero_rows_or_first [of "Str (js ''zz'')" "\<lparr>row_answer = sample_node (js ''al'')\<rparr>"
          "[\<lparr>row_answer = sample_node (js ''bo'')\<rparr>]"]
        get_zero_rows_or_first [of "Str (js ''al'')" "\<lparr>row_answer = sample_node (js ''al'')\<rparr>"
          "[\<lparr>row_answer = sample_node (js ''bo'')\<rparr>]"]
  by (simp add: js_def)

text \<open>
  C10. \<open>create\<close> reads the first row without a guard: on a reply with no error and no
  rows the read raises a \<open>TypeError\<close> and the callback is not invoked; with at least one
  row it hands over the entity of the first row. \<open>get\<close> and \<open>patch\<close> guard the same
  reply and hand an error to the callback.
\<close>

theorem create_reads_first_row_unguarded:
  assumes "validate props False = Inr safeProps"
  shows "calls (create props (None, [])) = []
       \<and> thrown (create props (None, [])) = Some TypeError
       \<and> calls (create props (None, r # rest)) = [(None, [AnswerValue (Answer (row_answer r))])]
       \<and> thrown (create props (None, r # rest)) = None
       \<and> thrown (get key (None, [])) = None
       \<and> calls (get key (None, [])) =
           [(Some (Error (js ''No such answer with answername: '' @ to_string key)), [])]
       \<and> thrown (snd (patch self props (None, []))) = None
       \<and> calls (snd (patch self props (None, []))) =
           [(Some (Error (js ''Answer has been deleted! Answername: '' @ to_string (answername self))),
             [])]"
  by (simp add: create_zero [OF assms] create_rows [OF assms] get_zero patch_zero [OF assms])

theorem create_reads_first_row_unguarded_witness:
  "validate [(ANSWERNAME, Str (js ''ab''))] False = Inr [(ANSWERNAME, Str (js ''ab''))]
   \<and> calls (create [(ANSWERNAME, Str (js ''ab''))] (None, [])) = []
   \<and> thrown (create [(ANSWERNAME, Str (js ''ab''))] (None, [])) = Some TypeError"
  using create_reads_first_row_unguarded [OF validate_ab]
  by (simp add: validate_ab)

text \<open>
  C3, as stated, fails: \<open>create\<close> with the one-character \<open>answername\<close> \<open>"a"\<close> throws the
  \<open>ValidationError\<close> to its caller and never invokes the callback.
\<close>

theorem create_invalid_never_calls_back:
  "calls (create [(ANSWERNAME, Str (js ''a''))] (None, [\<lparr>row_answer = sample_node (js ''a'')\<rparr>])) = []
   \<and> thrown (create [(ANSWERNAME, Str (js ''a''))] (None, [\<lparr>row_answer = sample_node (js ''a'')\<rparr>])) =
       Some (ValidationError (js ''Invalid answername (too short). Requirements: '' @ REQUIREMENTS))"
  by (simp add: create_invalid [OF validate_a])

text \<open>
  C3, amended. When the input passes validation, every operation invokes the callback
  exactly once and throws nothing, for every reply of the store (for \<open>create\<close>: every
  reply that has an error or at least one row): either with an error and nothing else, or
  with \<open>null\<close> for the error and the operation's results, which are one value for
  \<open>get\<close>, \<open>getAll\<close> and \<open>create\<close>, two for \<open>getFollowingAndOthers\<close> and none for
  \<open>patch\<close>, \<open>del\<close>, \<open>follow\<close> and \<open>unfollow\<close>. When the input fails validation,
  \<open>create\<close> and \<open>patch\<close> throw the \<open>ValidationError\<close> to their caller, send no query
  and do not invoke the callback.
\<close>

theorem callback_once_when_valid:
  "(validate props False = Inr safeProps \<and> (fst reply \<noteq> None \<or> snd reply \<noteq> []) \<longrightarrow>
      completes_once 1 (create props reply))
   \<and> (validate props False = Inr safeProps \<longrightarrow> completes_once 0 (snd (patch self props reply)))
   \<and> (validate props False = Inl e \<longrightarrow>
        is_ValidationError e
      \<and> create props reply = \<lparr>sent = None, calls = [], thrown = Some e\<rparr>
      \<and> patch self props reply = (self, \<lparr>sent = None, calls = [], thrown = Some e\<rparr>))
   \<and> completes_once 1 (get key reply)
   \<and> completes_once 1 (getAll reply)
   \<and> completes_once 0 (del self err)
   \<and> completes_once 0 (follow self other err)
   \<and> completes_once 0 (unfollow self other err)
   \<and> completes_once 2 (getFollowingAndOthers self others_reply)"
proof -
  have c: "validate props False = Inr safeProps \<and> (fst reply \<noteq> None \<or> snd reply \<noteq> []) \<longrightarrow>
      completes_once 1 (create props reply)"
  proof
    assume a: "validate props False = Inr safeProps \<and> (fst reply \<noteq> None \<or> snd reply \<noteq> [])"
    then have v: "validate props False = Inr safeProps" by simp
    show "completes_once 1 (create props reply)"
    proof (cases reply rule: reply_cases)
      case (error e' rows)
      then show ?thesis by (simp add: create_error [OF v] completes_once_def)
    next
      case zero
      with a show ?thesis by simp
    next
      case (rows r rest)
      then show ?thesis by (simp add: create_rows [OF v] completes_once_def)
    qed
  qed
  have p: "validate props False = Inr safeProps \<longrightarrow> completes_once 0 (snd (patch self props reply))"
  proof
    assume v: "validate props False = Inr safeProps"
    show "completes_once 0 (snd (patch self props reply))"
    proof (cases reply rule: reply_cases)
      case (error e' rows)
      then show ?thesis by (simp add: patch_error [OF v] completes_once_def)
    next
      case zero
      then show ?thesis by (simp add: patch_zero [OF v] completes_once_def)
    next
      case (rows r rest)
      then show ?thesis by (simp add: patch_rows [OF v] completes_once_def)
    qed
  qed
  have i: "validate props False = Inl e \<longrightarrow>
        is_ValidationError e
      \<and> create props reply = \<lparr>sent = None, calls = [], thrown = Some e\<rparr>
      \<and> patch self props reply = (self, \<lparr>sent = None, calls = [], thrown = Some e\<rparr>)"
    by (simp add: create_invalid patch_invalid validate_error_kind)
  have g: "completes_once 1 (get key reply)"
    by (cases reply rule: reply_cases) (simp_all add: get_error get_zero get_rows completes_once_def)
  have ga: "completes_once 1 (getAll reply)"
    by (cases "fst reply") (simp_all add: getAll_def completes_once_def)
  have d: "completes_once 0 (del self err)"
    by (cases err) (simp_all add: del_def completes_once_def)
  have f: "completes_once 0 (follow self other err)"
    by (cases err) (simp_all add: follow_def completes_once_def)
  have u: "completes_once 0 (unfollow self other err)"
    by (cases err) (simp_all add: unfollow_def completes_once_def)
  have fo: "completes_once 2 (getFollowingAndOthers self others_reply)"
    by (cases "fst others_reply") (simp_all add: getFollowingAndOthers_def completes_once_def Let_def)
  from c p i g ga d f u fo show ?thesis by blast
qed

theorem callback_once_when_valid_witness:
  "validate [(ANSWERNAME, Str (js ''ab''))] False = Inr [(ANSWERNAME, Str (js ''ab''))]
   \<and> completes_once 1 (create [(ANSWERNAME, Str (js ''ab''))] (None, [\<lparr>row_answer = sample_node (js ''ab'')\<rparr>]))
   \<and> completes_once 0 (snd (patch (Answer (sample_node (js ''cd''))) [(ANSWERNAME, Str (js ''ab''))]
        (None, [\<lparr>row_answer = sample_node (js ''ab'')\<rparr>])))
   \<and> validate [(ANSWERNAME, Str (js ''a''))] False =
       Inl (ValidationError (js ''Invalid answername (too short). Requirements: '' @ REQUIREMENTS))
   \<and> patch (Answer (sample_node (js ''cd''))) [(ANSWERNAME, Str (js ''a''))] (None, []) =
       (Answer (sample_node (js ''cd'')),
        \<lparr>sent = None, calls = [],
         thrown = Some (ValidationError
           (js ''Invalid answername (too short). Requirements: '' @ REQUIREMENTS))\<rparr>)"
  using callback_once_when_valid [of "[(ANSWERNAME, Str (js ''ab''))]" "[(ANSWERNAME, Str (js ''ab''))]"
          "(None, [\<lparr>row_answer = sample_node (js ''ab'')\<rparr>])" "Answer (sample_node (js ''cd''))"]
        callback_once_when_valid [of "[(ANSWERNAME, Str (js ''a''))]" _ "(None, [])"
          "Answer (sample_node (js ''cd''))"
          "ValidationError (js ''Invalid answername (too short). Requirements: '' @ REQUIREMENTS)"]
  by (simp add: validate_ab validate_a)

end
